theory Spec2Isabelle
  imports Main "HOL-Library.Sublist"
begin

section \<open>Transactional e-mail service (src/services/email.service.js)\<close>

text \<open>
  The module sends three kinds of e-mail: account verification, trip date-change
  notification and pending join-request. Everything it calls that lives outside the
  file (the file system, jsonwebtoken, the two data models, the date formatter, the
  nodemailer library and the process environment) is a field of the record
  \<open>module_env\<close>; the functions of the file are defined over it.

  Strings are byte strings: the UTF-8 encoding of the JavaScript string. All the
  matching done by the file is on ASCII tokens, which UTF-8 never splits.
  Console output is left out of the model: it cannot fail and changes no result.
\<close>

subsection \<open>String.prototype.replace with a global token pattern\<close>

text \<open>
  Every pattern of the file is a regular-expression literal \<^verbatim>\<open>/{{name}}/g\<close> whose name
  is made of letters. A brace that does not open a valid quantifier is a literal
  character, so the pattern matches exactly the text \<^verbatim>\<open>{{name}}\<close>.
\<close>

definition token :: "string \<Rightarrow> string" where
  "token key = ''{{'' @ key @ ''}}''"

text \<open>
  The replacement argument is a string, so \<^verbatim>\<open>replace\<close> expands its dollar patterns
  (GetSubstitution of ECMAScript). The patterns have no capture group, so the
  patterns that expand are: two dollars (one dollar), dollar-ampersand (the matched
  text), dollar-backtick (the input before the match) and dollar-apostrophe (the
  input after the match). A dollar followed by anything else stays as it is.
\<close>

fun getSubstitution :: "string \<Rightarrow> string \<Rightarrow> string \<Rightarrow> string \<Rightarrow> string" where
  "getSubstitution matched preceding following [] = []"
| "getSubstitution matched preceding following [c] = [c]"
| "getSubstitution matched preceding following (c # c' # rest) =
     (if c = CHR ''$'' then
        (if c' = CHR ''$'' then CHR ''$'' # getSubstitution matched preceding following rest
         else if c' = CHR ''&'' then matched @ getSubstitution matched preceding following rest
         else if c' = CHR 0x60 then preceding @ getSubstitution matched preceding following rest
         else if c' = CHR 0x27 then following @ getSubstitution matched preceding following rest
         else c # getSubstitution matched preceding following (c' # rest))
      else c # getSubstitution matched preceding following (c' # rest))"

text \<open>
  The scan of a global replace: matches are found from left to right and do not
  overlap; \<open>preceding\<close> is the part of the input already passed, which the
  dollar-backtick pattern reads.
\<close>

function replace_from :: "string \<Rightarrow> string \<Rightarrow> string \<Rightarrow> string \<Rightarrow> string" where
  "replace_from key replacement preceding s =
     (if prefix (token key) s then
        getSubstitution (token key) preceding (drop (length (token key)) s) replacement
          @ replace_from key replacement (preceding @ token key) (drop (length (token key)) s)
      else (case s of
              [] \<Rightarrow> []
            | c # cs \<Rightarrow> c # replace_from key replacement (preceding @ [c]) cs))"
  by pat_completeness auto
termination
  by (relation "measure (\<lambda>(key, replacement, preceding, s). length s)")
     (auto simp: token_def prefix_def)

definition replace_global :: "string \<Rightarrow> string \<Rightarrow> string \<Rightarrow> string" where
  \<comment> \<open>\<^verbatim>\<open>s.replace(/{{key}}/g, replacement)\<close>\<close>
  "replace_global key replacement s = replace_from key replacement [] s"

definition replace_chain :: "(string \<times> string) list \<Rightarrow> string \<Rightarrow> string" where
  \<comment> \<open>a chain \<^verbatim>\<open>s.replace(/{{k1}}/g, v1).replace(/{{k2}}/g, v2)...\<close>, in the order written\<close>
  "replace_chain kvs s = foldl (\<lambda>html (key, val). replace_global key val html) s kvs"

subsection \<open>Small pieces of JavaScript\<close>

definition or_default :: "string option \<Rightarrow> string \<Rightarrow> string" where
  \<comment> \<open>\<^verbatim>\<open>x || d\<close> on a string that may be undefined: the empty string is falsy too\<close>
  "or_default x d = (case x of None \<Rightarrow> d | Some s \<Rightarrow> if s = [] then d else s)"

definition interpolate :: "string option \<Rightarrow> string" where
  \<comment> \<open>a string that may be undefined, inside a template literal\<close>
  "interpolate x = (case x of None \<Rightarrow> ''undefined'' | Some s \<Rightarrow> s)"

fun show_nat :: "nat \<Rightarrow> string" where
  \<comment> \<open>a non-negative integer inside a template literal: its decimal digits\<close>
  "show_nat n =
     (if n < 10 then [''0123456789'' ! n]
      else show_nat (n div 10) @ [''0123456789'' ! (n mod 10)])"

subsection \<open>Data\<close>

type_synonym date = string

record user =
  id_user :: nat
  name :: string
  email :: string

record trip =
  id_trip :: nat
  title :: string
  start_date :: date
  end_date :: date
  id_creator :: nat

text \<open>
  A participation request has the fields \<^verbatim>\<open>id_participation\<close>, \<^verbatim>\<open>id_trip\<close>,
  \<^verbatim>\<open>id_user\<close> and \<^verbatim>\<open>message\<close>; the two middle ones are written \<open>p_id_trip\<close> and
  \<open>p_id_user\<close> here, apart from the fields of the trip and of the user. The message
  is optional.
\<close>

record participation =
  id_participation :: nat
  p_id_trip :: nat
  p_id_user :: nat
  message :: "string option"

record mail =
  mail_from :: "string option"
  mail_to :: string
  subject :: string
  html :: string

datatype error = Error (error_message: string)

datatype payload =
    VerifyPayload (userId: nat)
  | ActionPayload (participationId: nat) (action: string)

record sign_call =
  payload :: payload
  secretOrPrivateKey :: "string option"
  expiresIn :: string

record tally =
  sent :: nat
  failed :: nat
  total :: nat

type_synonym info = string

text \<open>A promise is modelled by the way it settles: \<open>Inl\<close> rejected, \<open>Inr\<close> fulfilled.\<close>

type_synonym 'a promise = "error + 'a"

datatype 'a settled = Fulfilled 'a | Rejected error

fun is_fulfilled :: "'a settled \<Rightarrow> bool" where
  "is_fulfilled (Fulfilled v) = True"
| "is_fulfilled (Rejected e) = False"

fun is_rejected :: "'a settled \<Rightarrow> bool" where
  "is_rejected (Fulfilled v) = False"
| "is_rejected (Rejected e) = True"

subsection \<open>The world outside the file\<close>

text \<open>
  The observable effects are the messages handed to the transporter and the tokens
  asked of jsonwebtoken, both in the order of the calls.
\<close>

record world =
  outbox :: "mail list"
  issued :: "sign_call list"

text \<open>
  A transport object decides how each send settles; the decision may depend on the
  messages submitted before it. \<^verbatim>\<open>nodemailer.createTransport\<close> builds such an object
  from the account name and password it is given; it only stores them, and they are
  first used when a message is sent.
\<close>

type_synonym transport = "mail list \<Rightarrow> mail \<Rightarrow> info promise"

record module_env =
  GMAIL_USER :: "string option"
  GMAIL_APP_PASSWORD :: "string option"
  SECRET_KEY :: "string option"
  API_BASE_URL :: "string option"
  FRONTEND_URL :: "string option"
  readFile :: "string \<Rightarrow> string promise"
  formatDate :: "date \<Rightarrow> string"
  jwt_sign :: "payload \<Rightarrow> string option \<Rightarrow> string \<Rightarrow> error + string"
  selectById :: "nat \<Rightarrow> (user option) promise"
  tripsById :: "nat \<Rightarrow> (trip option) promise"
  createTransport :: "string option \<Rightarrow> string option \<Rightarrow> transport"

text \<open>
  The module-level constant of lines 13-19:
  \<^verbatim>\<open>const transporter = nodemailer.createTransport({ service: 'gmail', auth: { user, pass } })\<close>
  with the two credentials read from the environment. The call is not guarded and
  its result is an object, which is truthy whatever the credentials are. The three
  functions test the constant with \<^verbatim>\<open>!transporter\<close>, so it is kept as an optional
  value: \<open>None\<close> would be a falsy one.
\<close>

definition transporter :: "module_env \<Rightarrow> transport option" where
  "transporter d = Some (createTransport d (GMAIL_USER d) (GMAIL_APP_PASSWORD d))"

subsection \<open>Control flow: exceptions over the world\<close>

type_synonym 'a io = "world \<Rightarrow> (error + 'a) \<times> world"

definition ret :: "'a \<Rightarrow> 'a io" where
  "ret x = (\<lambda>w. (Inr x, w))"

definition throw :: "error \<Rightarrow> 'a io" where
  "throw e = (\<lambda>w. (Inl e, w))"

definition bind :: "'a io \<Rightarrow> ('a \<Rightarrow> 'b io) \<Rightarrow> 'b io" where
  "bind m f = (\<lambda>w. case m w of (Inl e, w') \<Rightarrow> (Inl e, w') | (Inr x, w') \<Rightarrow> f x w')"

definition try_catch :: "'a io \<Rightarrow> (error \<Rightarrow> 'a io) \<Rightarrow> 'a io" where
  "try_catch m handler = (\<lambda>w. case m w of (Inl e, w') \<Rightarrow> handler e w' | (Inr x, w') \<Rightarrow> (Inr x, w'))"

definition await :: "'a promise \<Rightarrow> 'a io" where
  \<comment> \<open>a rejected promise throws at the \<^verbatim>\<open>await\<close>\<close>
  "await p = (\<lambda>w. (p, w))"

fun map_io :: "('a \<Rightarrow> 'b io) \<Rightarrow> 'a list \<Rightarrow> 'b list io" where
  \<comment> \<open>\<^verbatim>\<open>xs.map(f)\<close> for a callback with effects: the calls run in list order\<close>
  "map_io f [] = ret []"
| "map_io f (x # xs) = bind (f x) (\<lambda>y. bind (map_io f xs) (\<lambda>ys. ret (y # ys)))"

definition allSettled :: "'a promise list \<Rightarrow> 'a settled list io" where
  \<comment> \<open>\<^verbatim>\<open>await Promise.allSettled(ps)\<close>: never throws\<close>
  "allSettled ps = ret (map (\<lambda>p. case p of Inl e \<Rightarrow> Rejected e | Inr v \<Rightarrow> Fulfilled v) ps)"

definition sendMail :: "transport \<Rightarrow> mail \<Rightarrow> info promise io" where
  \<comment> \<open>\<^verbatim>\<open>transporter.sendMail(m)\<close>: submits the message and returns a promise\<close>
  "sendMail tr m = (\<lambda>w. (Inr (tr (outbox w) m), w\<lparr>outbox := outbox w @ [m]\<rparr>))"

definition sign :: "module_env \<Rightarrow> payload \<Rightarrow> string \<Rightarrow> string io" where
  \<comment> \<open>\<^verbatim>\<open>jwt.sign(payload, process.env.SECRET_KEY, { expiresIn })\<close>\<close>
  "sign d p expiry =
     (\<lambda>w. (jwt_sign d p (SECRET_KEY d) expiry,
           w\<lparr>issued := issued w @ [\<lparr>payload = p, secretOrPrivateKey = SECRET_KEY d, expiresIn = expiry\<rparr>]\<rparr>))"

definition loadTemplate :: "module_env \<Rightarrow> string \<Rightarrow> string io" where
  "loadTemplate d templateName = await (readFile d (''../templates/'' @ templateName))"

subsection \<open>sendVerifyEmailTo\<close>

definition verify_subject :: string where
  "verify_subject = ''Verificaci'' @ [CHR 0xC3, CHR 0xB3] @ ''n de email - Viajes Compartidos''"

definition verificationLink :: "module_env \<Rightarrow> string \<Rightarrow> string" where
  "verificationLink d token_text =
     or_default (API_BASE_URL d) ''http://localhost:3000'' @ ''/api/auth/verify?token='' @ token_text"

definition sendVerifyEmailTo :: "module_env \<Rightarrow> user \<Rightarrow> unit io" where
  "sendVerifyEmailTo d userData =
     (case transporter d of
        None \<Rightarrow> ret ()
      | Some tr \<Rightarrow>
          try_catch
            (bind (loadTemplate d ''verify.html'') (\<lambda>htmlTemplate.
             bind (sign d (VerifyPayload (id_user userData)) ''1d'') (\<lambda>tok.
             bind (sendMail tr
                     \<lparr>mail_from = GMAIL_USER d,
                      mail_to = email userData,
                      subject = verify_subject,
                      html = replace_global ''verificationLink'' (verificationLink d tok) htmlTemplate\<rparr>)
                  (\<lambda>p.
             bind (await p) (\<lambda>_. ret ())))))
            (\<lambda>error. ret ()))"

subsection \<open>sendTripUpdateNotification\<close>

definition tripDetailsUrl :: "module_env \<Rightarrow> trip \<Rightarrow> string" where
  "tripDetailsUrl d updatedTrip =
     or_default (FRONTEND_URL d) ''https://app-viajes.netlify.app''
       @ ''/trips/'' @ show_nat (id_trip updatedTrip)"

definition datesModifiedHtml :: "module_env \<Rightarrow> string \<Rightarrow> user \<Rightarrow> trip \<Rightarrow> trip \<Rightarrow> string" where
  "datesModifiedHtml d htmlTemplate participant oldTrip updatedTrip =
     replace_chain
       [(''participantName'', name participant),
        (''tripTitle'', title updatedTrip),
        (''newStartDate'', formatDate d (start_date updatedTrip)),
        (''newEndDate'', formatDate d (end_date updatedTrip)),
        (''oldStartDate'', formatDate d (start_date oldTrip)),
        (''oldEndDate'', formatDate d (end_date oldTrip)),
        (''tripDetailsUrl'', tripDetailsUrl d updatedTrip)]
       htmlTemplate"

definition datesModifiedMail :: "module_env \<Rightarrow> string \<Rightarrow> trip \<Rightarrow> trip \<Rightarrow> user \<Rightarrow> mail" where
  "datesModifiedMail d htmlTemplate oldTrip updatedTrip participant =
     \<lparr>mail_from = Some (''Viajes Compartidos <'' @ interpolate (GMAIL_USER d) @ ''>''),
      mail_to = email participant,
      subject = [CHR 0xE2, CHR 0x9A, CHR 0xA0, CHR 0xEF, CHR 0xB8, CHR 0x8F]
                  @ '' Cambio de fechas: '' @ title updatedTrip,
      html = datesModifiedHtml d htmlTemplate participant oldTrip updatedTrip\<rparr>"

definition sendTripUpdateNotification ::
    "module_env \<Rightarrow> user list \<Rightarrow> trip \<Rightarrow> trip \<Rightarrow> string \<Rightarrow> tally option io" where
  "sendTripUpdateNotification d participants oldTrip updatedTrip creatorEmail =
     (case transporter d of
        None \<Rightarrow> ret None
      | Some tr \<Rightarrow>
          if length participants = 0 then ret None
          else
            try_catch
              (bind (loadTemplate d ''datesModified.html'') (\<lambda>htmlTemplate.
                 let recipientsToNotify = filter (\<lambda>p. email p \<noteq> creatorEmail) participants
                 in if length recipientsToNotify = 0 then ret None
                    else
                      bind (map_io (\<lambda>participant.
                                sendMail tr (datesModifiedMail d htmlTemplate oldTrip updatedTrip participant))
                              recipientsToNotify) (\<lambda>emailPromises.
                      bind (allSettled emailPromises) (\<lambda>results.
                        let successful = length (filter is_fulfilled results);
                            failed_results = filter is_rejected results
                        in ret (Some \<lparr>sent = successful,
                                      failed = length failed_results,
                                      total = length results\<rparr>)))))
              (\<lambda>error. ret None))"

subsection \<open>sendPendingRequestEmail\<close>

definition actionLink :: "module_env \<Rightarrow> nat \<Rightarrow> string \<Rightarrow> string" where
  "actionLink d id_part token_text =
     or_default (API_BASE_URL d) ''http://localhost:3000''
       @ ''/api/participants/'' @ show_nat id_part @ ''/action?token='' @ token_text"

definition pendingRequestHtml ::
    "module_env \<Rightarrow> string \<Rightarrow> user \<Rightarrow> user \<Rightarrow> trip \<Rightarrow> participation \<Rightarrow> string \<Rightarrow> string \<Rightarrow> string" where
  "pendingRequestHtml d htmlTemplate creator participant trp newParticipation acceptToken rejectToken =
     replace_chain
       [(''creatorName'', name creator),
        (''userName'', name participant),
        (''tripTitle'', title trp),
        (''startDate'', formatDate d (start_date trp)),
        (''endDate'', formatDate d (end_date trp)),
        (''userMessage'', or_default (message newParticipation) ''Sin mensaje''),
        (''appUrl'', or_default (FRONTEND_URL d) ''http://localhost:3000'' @ ''/requests''),
        (''accepted'', actionLink d (id_participation newParticipation) acceptToken),
        (''rejected'', actionLink d (id_participation newParticipation) rejectToken)]
       htmlTemplate"

definition pendingRequestMail ::
    "module_env \<Rightarrow> string \<Rightarrow> user \<Rightarrow> user \<Rightarrow> trip \<Rightarrow> participation \<Rightarrow> string \<Rightarrow> string \<Rightarrow> mail" where
  "pendingRequestMail d htmlTemplate creator participant trp newParticipation acceptToken rejectToken =
     \<lparr>mail_from = GMAIL_USER d,
      mail_to = email creator,
      subject = [CHR 0xF0, CHR 0x9F, CHR 0x93, CHR 0xA8] @ '' '' @ name participant
                  @ '' solicita unirse a tu viaje'',
      html = pendingRequestHtml d htmlTemplate creator participant trp newParticipation
               acceptToken rejectToken\<rparr>"

text \<open>
  The block under \<^verbatim>\<open>try\<close> returns either nothing or the promise of the send, which
  it does not await: the promise settles outside the \<^verbatim>\<open>try\<close>, and the caller of the
  asynchronous function sees its outcome.
\<close>

definition pending_try :: "module_env \<Rightarrow> transport \<Rightarrow> participation \<Rightarrow> (info promise) option io" where
  "pending_try d tr newParticipation =
     bind (await (selectById d (p_id_user newParticipation))) (\<lambda>participant_opt.
     bind (await (tripsById d (p_id_trip newParticipation))) (\<lambda>trip_opt.
       case participant_opt of
         None \<Rightarrow> ret None
       | Some participant \<Rightarrow>
           (case trip_opt of
              None \<Rightarrow> ret None
            | Some trp \<Rightarrow>
                bind (await (selectById d (id_creator trp))) (\<lambda>creator_opt.
                  case creator_opt of
                    None \<Rightarrow> ret None
                  | Some creator \<Rightarrow>
                      bind (loadTemplate d ''pendingRequest.html'') (\<lambda>htmlTemplate.
                      bind (sign d (ActionPayload (id_participation newParticipation) ''accepted'') ''7d'')
                        (\<lambda>acceptToken.
                      bind (sign d (ActionPayload (id_participation newParticipation) ''rejected'') ''7d'')
                        (\<lambda>rejectToken.
                      bind (sendMail tr
                              (pendingRequestMail d htmlTemplate creator participant trp
                                 newParticipation acceptToken rejectToken))
                        (\<lambda>p. ret (Some p)))))))))"

definition sendPendingRequestEmail :: "module_env \<Rightarrow> participation \<Rightarrow> info option io" where
  "sendPendingRequestEmail d newParticipation =
     (case transporter d of
        None \<Rightarrow> ret None
      | Some tr \<Rightarrow>
          bind (try_catch (pending_try d tr newParticipation) (\<lambda>error. throw error))
            (\<lambda>returned.
               case returned of
                 None \<Rightarrow> ret None
               | Some p \<Rightarrow> bind (await p) (\<lambda>result. ret (Some result))))"

subsection \<open>What rendering is meant to produce\<close>

text \<open>
  A template seen as a sequence of literal text and placeholder tokens, and the
  rendering the specification describes: every token with an entry in the mapping
  becomes its value, every other token and all literal text stay as they are. The
  mapping is the list of the chain read as a map: the first entry of a name counts.
\<close>

datatype segment = Lit string | Tok string

fun segment_text :: "segment \<Rightarrow> string" where
  "segment_text (Lit t) = t"
| "segment_text (Tok k) = token k"

definition template_of :: "segment list \<Rightarrow> string" where
  "template_of segs = concat (map segment_text segs)"

fun expected_segment :: "(string \<rightharpoonup> string) \<Rightarrow> segment \<Rightarrow> string" where
  "expected_segment m (Lit t) = t"
| "expected_segment m (Tok k) = (case m k of Some v \<Rightarrow> v | None \<Rightarrow> token k)"

definition rendering_spec :: "(string \<times> string) list \<Rightarrow> segment list \<Rightarrow> string" where
  "rendering_spec kvs segs = concat (map (expected_segment (map_of kvs)) segs)"

fun put :: "string \<Rightarrow> string \<Rightarrow> segment \<Rightarrow> segment" where
  \<comment> \<open>one step of the chain, on segments\<close>
  "put k v (Lit t) = Lit t"
| "put k v (Tok k') = (if k' = k then Lit v else Tok k')"

text \<open>
  When does the chain of replaces produce that rendering? Two things are needed.
  A replacement value must hold no dollar pattern that \<^verbatim>\<open>replace\<close> expands. And at each
  step the token being replaced must start nowhere but at its placeholders: not
  inside literal text, not inside another token, and not inside text put in by an
  earlier step, the text that follows included.
\<close>

fun dollar_safe :: "string \<Rightarrow> bool" where
  "dollar_safe [] = True"
| "dollar_safe [c] = True"
| "dollar_safe (c # c' # rest) =
     ((c \<noteq> CHR ''$'' \<or> (c' \<noteq> CHR ''$'' \<and> c' \<noteq> CHR ''&'' \<and> c' \<noteq> CHR 0x60 \<and> c' \<noteq> CHR 0x27))
      \<and> dollar_safe (c' # rest))"

text \<open>\<open>starts_nowhere k t rest\<close>: in the text \<open>t @ rest\<close> no occurrence of the token of
  \<open>k\<close> starts within \<open>t\<close>.\<close>

fun starts_nowhere :: "string \<Rightarrow> string \<Rightarrow> string \<Rightarrow> bool" where
  "starts_nowhere k [] rest = True"
| "starts_nowhere k (c # t) rest = (\<not> prefix (token k) (c # t @ rest) \<and> starts_nowhere k t rest)"

text \<open>\<open>only_placeholders k segs\<close>: in the template \<open>segs\<close> the token of \<open>k\<close> starts
  only where a segment is its placeholder.\<close>

fun only_placeholders :: "string \<Rightarrow> segment list \<Rightarrow> bool" where
  "only_placeholders k [] = True"
| "only_placeholders k (seg # segs) =
     ((seg = Tok k \<or> starts_nowhere k (segment_text seg) (template_of segs))
      \<and> only_placeholders k segs)"

text \<open>
  The two conditions at every step of a chain, each step seeing what the earlier
  ones put in. A value is only looked at when the template has a placeholder for it.
\<close>

fun chain_admissible :: "(string \<times> string) list \<Rightarrow> segment list \<Rightarrow> bool" where
  "chain_admissible [] segs = True"
| "chain_admissible ((k, v) # kvs) segs =
     (only_placeholders k segs
      \<and> (Tok k \<notin> set segs \<or> dollar_safe v)
      \<and> chain_admissible kvs (map (put k v) segs))"

text \<open>
  A simple class of inputs: names without braces, literal text without an opening
  brace, values without a dollar sign or an opening brace.
\<close>

definition brace_free :: "string \<Rightarrow> bool" where
  "brace_free k = (CHR ''{'' \<notin> set k \<and> CHR ''}'' \<notin> set k)"

fun plain_segment :: "segment \<Rightarrow> bool" where
  "plain_segment (Lit t) = (CHR ''{'' \<notin> set t)"
| "plain_segment (Tok k) = brace_free k"

definition plain_value :: "string \<Rightarrow> bool" where
  "plain_value v = (CHR ''$'' \<notin> set v \<and> CHR ''{'' \<notin> set v)"

fun plain_binding :: "string \<times> string \<Rightarrow> bool" where
  "plain_binding (k, v) = (brace_free k \<and> plain_value v)"

subsection \<open>How a batch of sends settles\<close>

text \<open>
  The outcomes of submitting the messages \<open>ms\<close> one after the other to a
  transporter that has already been handed the messages \<open>box\<close>.
\<close>

fun settlements :: "transport \<Rightarrow> mail list \<Rightarrow> mail list \<Rightarrow> info promise list" where
  "settlements tr box [] = []"
| "settlements tr box (m # ms) = tr box m # settlements tr (box @ [m]) ms"

subsection \<open>Sample values\<close>

text \<open>Concrete users, trips and environments on which the theorems below are run.\<close>

definition ana :: user where
  "ana = \<lparr>id_user = 1, name = ''Ana'', email = ''ana@example.com''\<rparr>"

definition beto :: user where
  "beto = \<lparr>id_user = 2, name = ''Beto'', email = ''beto@example.com''\<rparr>"

definition carla :: user where
  "carla = \<lparr>id_user = 3, name = ''Carla'', email = ''carla@example.com''\<rparr>"

definition trip_before :: trip where
  "trip_before = \<lparr>id_trip = 10, title = ''Lima'', start_date = ''2025-01-02'',
                   end_date = ''2025-01-09'', id_creator = 1\<rparr>"

definition trip_after :: trip where
  "trip_after = \<lparr>id_trip = 10, title = ''Lima'', start_date = ''2025-02-03'',
                  end_date = ''2025-02-10'', id_creator = 1\<rparr>"

definition request_of_beto :: participation where
  "request_of_beto = \<lparr>id_participation = 42, p_id_trip = 10, p_id_user = 2, message = None\<rparr>"

definition request_of_nobody :: participation where
  "request_of_nobody = \<lparr>id_participation = 43, p_id_trip = 10, p_id_user = 9, message = Some ''Hola''\<rparr>"

definition sample_files :: "string \<Rightarrow> string promise" where
  "sample_files path =
     (if path = ''../templates/verify.html'' then Inr ''<a href={{verificationLink}}>ok</a>''
      else if path = ''../templates/datesModified.html''
        then Inr ''{{participantName}}: {{tripTitle}} {{newStartDate}} {{tripDetailsUrl}}''
      else if path = ''../templates/pendingRequest.html''
        then Inr ''{{userName}}: {{userMessage}} {{accepted}} {{rejected}}''
      else Inl (Error ''ENOENT''))"

definition no_files :: "string \<Rightarrow> string promise" where
  "no_files path = Inl (Error ''ENOENT'')"

definition one_file :: "string \<Rightarrow> string promise" where
  "one_file path = Inr ''<p>{{userMessage}}</p>''"

definition trips_down :: "nat \<Rightarrow> (trip option) promise" where
  "trips_down i = Inl (Error ''ECONNRESET'')"

definition sample_sign :: "payload \<Rightarrow> string option \<Rightarrow> string \<Rightarrow> error + string" where
  "sample_sign p secret expiry =
     (case secret of
        None \<Rightarrow> Inl (Error ''secretOrPrivateKey must have a value'')
      | Some k \<Rightarrow>
          Inr (case p of
                 VerifyPayload u \<Rightarrow> ''v'' @ show_nat u @ ''.'' @ expiry
               | ActionPayload i a \<Rightarrow> a @ show_nat i @ ''.'' @ expiry))"

definition sample_users :: "nat \<Rightarrow> (user option) promise" where
  "sample_users i = (if i = 1 then Inr (Some ana) else if i = 2 then Inr (Some beto) else Inr None)"

definition sample_trips :: "nat \<Rightarrow> (trip option) promise" where
  "sample_trips i = (if i = 10 then Inr (Some trip_after) else Inr None)"

definition accepting :: transport where
  "accepting box m = Inr ''250 OK''"

definition refusing_beto :: transport where
  "refusing_beto box m =
     (if mail_to m = ''beto@example.com'' then Inl (Error ''550 mailbox unavailable'')
      else Inr ''250 OK'')"

definition rejecting :: transport where
  "rejecting box m = Inl (Error ''535 authentication failed'')"

definition missing_credentials :: transport where
  "missing_credentials box m = Inl (Error ''Missing credentials for PLAIN'')"

definition sample_createTransport :: "string option \<Rightarrow> string option \<Rightarrow> transport" where
  \<comment> \<open>sends go through when both credentials are there, and are rejected otherwise\<close>
  "sample_createTransport user pass =
     (case user of
        None \<Rightarrow> missing_credentials
      | Some u \<Rightarrow> (case pass of None \<Rightarrow> missing_credentials | Some p \<Rightarrow> accepting))"

definition create_refusing_beto :: "string option \<Rightarrow> string option \<Rightarrow> transport" where
  "create_refusing_beto user pass = refusing_beto"

definition create_rejecting :: "string option \<Rightarrow> string option \<Rightarrow> transport" where
  "create_rejecting user pass = rejecting"

definition sample_env :: module_env where
  "sample_env =
     \<lparr>GMAIL_USER = Some ''viajes@example.com'',
      GMAIL_APP_PASSWORD = Some ''abcd efgh ijkl mnop'',
      SECRET_KEY = Some ''s3cret'',
      API_BASE_URL = Some ''https://api.example.com'',
      FRONTEND_URL = None,
      readFile = sample_files,
      formatDate = (\<lambda>d. d),
      jwt_sign = sample_sign,
      selectById = sample_users,
      tripsById = sample_trips,
      createTransport = sample_createTransport\<rparr>"

definition without_credentials :: module_env where
  "without_credentials = sample_env\<lparr>GMAIL_USER := None, GMAIL_APP_PASSWORD := None\<rparr>"

definition empty_world :: world where
  "empty_world = \<lparr>outbox = [], issued = []\<rparr>"

section \<open>Properties\<close>

subsection \<open>Control flow\<close>

lemmas io_defs = ret_def throw_def bind_def try_catch_def await_def

lemma try_catch_unit: "fst (try_catch m (\<lambda>error. ret ()) w) = Inr ()"
  by (cases "m w"; cases "fst (m w)") (auto simp: io_defs)

lemma try_catch_ret_returns: "\<exists>y. fst (try_catch m (\<lambda>error. ret x) w) = Inr y"
  by (cases "m w"; cases "fst (m w)") (auto simp: io_defs)

lemma sendVerifyEmailTo_returns: "fst (sendVerifyEmailTo d userData w) = Inr ()"
  by (cases "transporter d") (simp_all add: sendVerifyEmailTo_def try_catch_unit, simp add: ret_def)

lemma sendTripUpdateNotification_returns:
  "\<exists>r. fst (sendTripUpdateNotification d participants oldTrip updatedTrip creatorEmail w) = Inr r"
  unfolding sendTripUpdateNotification_def
  using try_catch_ret_returns [where x = None]
  by (auto simp: ret_def split: option.splits)

lemmas sample_defs =
  transporter_def sample_createTransport_def missing_credentials_def create_refusing_beto_def
  create_rejecting_def without_credentials_def sample_env_def sample_files_def sample_sign_def sample_users_def sample_trips_def
  accepting_def refusing_beto_def rejecting_def no_files_def one_file_def trips_down_def
  empty_world_def ana_def beto_def carla_def
  trip_before_def trip_after_def request_of_beto_def request_of_nobody_def

lemmas service_defs =
  sendVerifyEmailTo_def sendTripUpdateNotification_def sendPendingRequestEmail_def
  pending_try_def loadTemplate_def sign_def sendMail_def allSettled_def

subsection \<open>Replacing tokens in a template\<close>

declare replace_from.simps [simp del]

declare show_nat.simps [simp del]

lemma getSubstitution_dollar_safe:
  "dollar_safe v \<Longrightarrow> getSubstitution m p f v = v"
  by (induction m p f v rule: getSubstitution.induct) auto

lemma replace_from_Nil: "replace_from k v pre [] = []"
  by (subst replace_from.simps) (simp add: token_def)

lemma replace_from_step:
  "\<not> prefix (token k) (c # s) \<Longrightarrow> replace_from k v pre (c # s) = c # replace_from k v (pre @ [c]) s"
  by (subst replace_from.simps) simp

lemma replace_from_pass:
  "starts_nowhere k t rest \<Longrightarrow> replace_from k v pre (t @ rest) = t @ replace_from k v (pre @ t) rest"
  by (induction t arbitrary: pre) (auto simp: replace_from_step)

lemma replace_from_match:
  "replace_from k v pre (token k @ r)
     = getSubstitution (token k) pre r v @ replace_from k v (pre @ token k) r"
  by (subst replace_from.simps) simp

lemma put_other: "seg \<noteq> Tok k \<Longrightarrow> put k v seg = seg"
  by (cases seg) auto

lemma replace_from_placeholders:
  assumes "only_placeholders k segs" "Tok k \<notin> set segs \<or> dollar_safe v"
  shows "replace_from k v pre (template_of segs) = template_of (map (put k v) segs)"
  using assms
proof (induction segs arbitrary: pre)
  case Nil
  then show ?case by (simp add: template_of_def replace_from_Nil)
next
  case (Cons seg segs)
  then have rest: "\<And>pre. replace_from k v pre (template_of segs) = template_of (map (put k v) segs)"
    by auto
  show ?case
  proof (cases "seg = Tok k")
    case True
    with Cons.prems(2) have "dollar_safe v" by simp
    then have "replace_from k v pre (token k @ template_of segs)
            = v @ replace_from k v (pre @ token k) (template_of segs)"
      by (simp add: replace_from_match getSubstitution_dollar_safe)
    with True rest show ?thesis by (simp add: template_of_def)
  next
    case False
    with Cons.prems have "starts_nowhere k (segment_text seg) (template_of segs)" by simp
    then have "replace_from k v pre (segment_text seg @ template_of segs)
                 = segment_text seg @ replace_from k v (pre @ segment_text seg) (template_of segs)"
      by (rule replace_from_pass)
    with False rest show ?thesis by (simp add: template_of_def put_other)
  qed
qed

lemma expected_put:
  "expected_segment (map_of ((k, v) # kvs)) = (\<lambda>seg. expected_segment (map_of kvs) (put k v seg))"
proof
  fix seg
  show "expected_segment (map_of ((k, v) # kvs)) seg = expected_segment (map_of kvs) (put k v seg)"
    by (cases seg) auto
qed

lemma rendering_spec_Cons:
  "rendering_spec ((k, v) # kvs) segs = rendering_spec kvs (map (put k v) segs)"
  unfolding rendering_spec_def by (simp only: expected_put map_map comp_def)

lemma expected_empty: "expected_segment (map_of []) = segment_text"
proof
  fix seg
  show "expected_segment (map_of []) seg = segment_text seg"
    by (cases seg) auto
qed

lemma rendering_spec_Nil: "rendering_spec [] segs = template_of segs"
  by (simp only: rendering_spec_def template_of_def expected_empty)

text \<open>The simple class of inputs meets both conditions.\<close>

lemma key_prefix_eq:
  "brace_free k \<Longrightarrow> brace_free k' \<Longrightarrow> prefix (k @ ''}}'') (k' @ ''}}'' @ r) \<Longrightarrow> k = k'"
proof (induction k arbitrary: k')
  case Nil
  then show ?case by (cases k') (auto simp: brace_free_def)
next
  case (Cons a k)
  then show ?case by (cases k') (auto simp: brace_free_def)
qed

lemma plain_put_one: "plain_value v \<Longrightarrow> plain_segment seg \<Longrightarrow> plain_segment (put k v seg)"
  by (cases seg) (auto simp: plain_value_def)

lemma plain_put:
  "plain_value v \<Longrightarrow> list_all plain_segment segs \<Longrightarrow> list_all plain_segment (map (put k v) segs)"
  by (induction segs) (auto simp: plain_put_one)

lemma starts_nowhere_no_open:
  "CHR ''{'' \<notin> set t \<Longrightarrow> starts_nowhere k t rest"
  by (induction t) (auto simp: token_def)

lemma starts_nowhere_other_token:
  assumes "brace_free k" "brace_free k'" "k \<noteq> k'"
  shows "starts_nowhere k (token k') rest"
proof -
  have no0: "\<not> prefix (token k) (token k' @ rest)"
    using key_prefix_eq [OF assms(1,2), of rest] assms(3) by (auto simp: token_def)
  have no1: "\<not> prefix (token k) (CHR ''{'' # k' @ ''}}'' @ rest)"
    using assms(2) by (cases k') (auto simp: token_def brace_free_def)
  have "CHR ''{'' \<notin> set (k' @ ''}}'')"
    using assms(2) by (simp add: brace_free_def)
  then have "starts_nowhere k (k' @ ''}}'') rest" by (rule starts_nowhere_no_open)
  with no0 no1 show ?thesis by (simp add: token_def)
qed

lemma plain_only_placeholders:
  "brace_free k \<Longrightarrow> list_all plain_segment segs \<Longrightarrow> only_placeholders k segs"
proof (induction segs)
  case Nil
  show ?case by simp
next
  case (Cons seg segs)
  then have rest: "only_placeholders k segs" by simp
  have "seg = Tok k \<or> starts_nowhere k (segment_text seg) (template_of segs)"
  proof (cases seg)
    case (Lit t)
    with Cons.prems show ?thesis by (simp add: starts_nowhere_no_open)
  next
    case (Tok k')
    with Cons.prems have "brace_free k'" by simp
    with Cons.prems(1) Tok show ?thesis
      by (cases "k' = k") (simp_all add: starts_nowhere_other_token)
  qed
  with rest show ?case by simp
qed

lemma plain_value_dollar_safe: "CHR ''$'' \<notin> set v \<Longrightarrow> dollar_safe v"
  by (induction v rule: dollar_safe.induct) auto

lemma plain_chain_admissible:
  "list_all plain_binding kvs \<Longrightarrow> list_all plain_segment segs \<Longrightarrow> chain_admissible kvs segs"
proof (induction kvs arbitrary: segs)
  case Nil
  show ?case by simp
next
  case (Cons kv kvs)
  then show ?case
    by (cases kv) (auto simp: plain_only_placeholders plain_put plain_value_def plain_value_dollar_safe)
qed

subsection \<open>Batches and successful runs\<close>

lemma length_settlements: "length (settlements tr box ms) = length ms"
  by (induction ms arbitrary: box) auto

lemma nth_settlements:
  "i < length ms \<Longrightarrow> settlements tr box ms ! i = tr (box @ take i ms) (ms ! i)"
proof (induction ms arbitrary: box i)
  case Nil
  then show ?case by simp
next
  case (Cons m ms)
  then show ?case by (cases i) auto
qed

lemma sendMail_apply:
  "sendMail tr m w = (Inr (tr (outbox w) m), w\<lparr>outbox := outbox w @ [m]\<rparr>)"
  by (simp add: sendMail_def)

lemma map_io_sendMail:
  "map_io (\<lambda>x. sendMail tr (f x)) xs w
     = (Inr (settlements tr (outbox w) (map f xs)), w\<lparr>outbox := outbox w @ map f xs\<rparr>)"
proof (induction xs arbitrary: w)
  case Nil
  show ?case by (simp add: ret_def)
next
  case (Cons x xs)
  have head: "sendMail tr (f x) w = (Inr (tr (outbox w) (f x)), w\<lparr>outbox := outbox w @ [f x]\<rparr>)"
    by (simp add: sendMail_def)
  have "map_io (\<lambda>x. sendMail tr (f x)) (x # xs) w
          = (case sendMail tr (f x) w of
               (Inl e, w') \<Rightarrow> (Inl e, w')
             | (Inr y, w') \<Rightarrow>
                 (case map_io (\<lambda>x. sendMail tr (f x)) xs w' of
                    (Inl e, w'') \<Rightarrow> (Inl e, w'')
                  | (Inr ys, w'') \<Rightarrow> (Inr (y # ys), w'')))"
    by (simp add: bind_def ret_def)
  also have "\<dots> = (Inr (tr (outbox w) (f x) # settlements tr (outbox w @ [f x]) (map f xs)),
                     w\<lparr>outbox := outbox w @ f x # map f xs\<rparr>)"
    unfolding head Cons.IH by simp
  finally show ?case by simp
qed

lemma count_fulfilled:
  "length (filter (is_fulfilled \<circ> case_sum Rejected Fulfilled) ps)
     = length (filter (\<lambda>p. \<not> isl p) ps)"
  by (induction ps) (auto split: sum.splits)

lemma count_rejected:
  "length (filter (is_rejected \<circ> case_sum Rejected Fulfilled) ps)
     = length (filter isl ps)"
  by (induction ps) (auto split: sum.splits)

lemma trip_update_loaded:
  assumes "transporter d = Some tr"
    and "readFile d ''../templates/datesModified.html'' = Inr htmlTemplate"
    and "participants \<noteq> []"
  shows "sendTripUpdateNotification d participants oldTrip updatedTrip creatorEmail w =
     (if filter (\<lambda>p. email p \<noteq> creatorEmail) participants = [] then (Inr None, w)
      else (Inr (Some
              \<lparr>sent = length (filter (\<lambda>p. \<not> isl p)
                        (settlements tr (outbox w)
                           (map (datesModifiedMail d htmlTemplate oldTrip updatedTrip)
                              (filter (\<lambda>p. email p \<noteq> creatorEmail) participants)))),
               failed = length (filter isl
                        (settlements tr (outbox w)
                           (map (datesModifiedMail d htmlTemplate oldTrip updatedTrip)
                              (filter (\<lambda>p. email p \<noteq> creatorEmail) participants)))),
               total = length (filter (\<lambda>p. email p \<noteq> creatorEmail) participants)\<rparr>),
            w\<lparr>outbox := outbox w
                 @ map (datesModifiedMail d htmlTemplate oldTrip updatedTrip)
                     (filter (\<lambda>p. email p \<noteq> creatorEmail) participants)\<rparr>))"
  using assms
  by (simp add: sendTripUpdateNotification_def loadTemplate_def allSettled_def io_defs
        map_io_sendMail count_fulfilled count_rejected length_settlements Let_def)

lemma pending_success:
  assumes "transporter d = Some tr"
    and "selectById d (p_id_user np) = Inr (Some participant)"
    and "tripsById d (p_id_trip np) = Inr (Some trp)"
    and "selectById d (id_creator trp) = Inr (Some creator)"
    and "readFile d ''../templates/pendingRequest.html'' = Inr htmlTemplate"
    and "jwt_sign d (ActionPayload (id_participation np) ''accepted'') (SECRET_KEY d) ''7d'' = Inr acceptToken"
    and "jwt_sign d (ActionPayload (id_participation np) ''rejected'') (SECRET_KEY d) ''7d'' = Inr rejectToken"
  shows "sendPendingRequestEmail d np w =
     ((case tr (outbox w) (pendingRequestMail d htmlTemplate creator participant trp np acceptToken rejectToken) of
         Inl e \<Rightarrow> Inl e | Inr result \<Rightarrow> Inr (Some result)),
      w\<lparr>outbox := outbox w @ [pendingRequestMail d htmlTemplate creator participant trp np acceptToken rejectToken],
        issued := issued w
          @ [\<lparr>payload = ActionPayload (id_participation np) ''accepted'',
               secretOrPrivateKey = SECRET_KEY d, expiresIn = ''7d''\<rparr>,
             \<lparr>payload = ActionPayload (id_participation np) ''rejected'',
               secretOrPrivateKey = SECRET_KEY d, expiresIn = ''7d''\<rparr>]\<rparr>)"
  using assms
  by (simp add: sendPendingRequestEmail_def pending_try_def loadTemplate_def sign_def sendMail_def
        io_defs split: sum.splits)

lemma verify_success:
  assumes "transporter d = Some tr"
    and "readFile d ''../templates/verify.html'' = Inr htmlTemplate"
    and "jwt_sign d (VerifyPayload (id_user userData)) (SECRET_KEY d) ''1d'' = Inr tok"
  shows "snd (sendVerifyEmailTo d userData w) =
     w\<lparr>outbox := outbox w @ [\<lparr>mail_from = GMAIL_USER d, mail_to = email userData, subject = verify_subject,
            html = replace_global ''verificationLink'' (verificationLink d tok) htmlTemplate\<rparr>],
       issued := issued w @ [\<lparr>payload = VerifyPayload (id_user userData),
               secretOrPrivateKey = SECRET_KEY d, expiresIn = ''1d''\<rparr>]\<rparr>"
  using assms
  by (simp add: sendVerifyEmailTo_def loadTemplate_def sign_def sendMail_def
        io_defs split: sum.splits)

subsection \<open>The transporter guard\<close>

text \<open>
  The guards of lines 32, 59 and 127 return when the constant is falsy. It never is.
\<close>

lemma transporter_present: "transporter d \<noteq> None"
  by (simp add: transporter_def)

text \<open>
  Claim C2 asks that with the credentials missing every send is a no-op. The code
  at that input: both credentials are unset, the transport object exists and
  rejects what it is sent. sendVerifyEmailTo and sendTripUpdateNotification each
  submit their message and return; sendPendingRequestEmail submits its message and
  rejects with the error of the transport.
\<close>

theorem missing_credentials_still_sends:
  "GMAIL_USER without_credentials = None
   \<and> GMAIL_APP_PASSWORD without_credentials = None
   \<and> transporter without_credentials = Some missing_credentials
   \<and> fst (sendVerifyEmailTo without_credentials beto empty_world) = Inr ()
   \<and> map mail_to (outbox (snd (sendVerifyEmailTo without_credentials beto empty_world)))
       = [''beto@example.com'']
   \<and> fst (sendTripUpdateNotification without_credentials [ana, beto] trip_before trip_after
            ''ana@example.com'' empty_world) = Inr (Some \<lparr>sent = 0, failed = 1, total = 1\<rparr>)
   \<and> map mail_to (outbox (snd (sendTripUpdateNotification without_credentials [ana, beto]
            trip_before trip_after ''ana@example.com'' empty_world))) = [''beto@example.com'']
   \<and> fst (sendPendingRequestEmail without_credentials request_of_beto empty_world)
       = Inl (Error ''Missing credentials for PLAIN'')
   \<and> map mail_to (outbox (snd (sendPendingRequestEmail without_credentials request_of_beto
            empty_world))) = [''ana@example.com'']"
proof -
  have tr: "transporter without_credentials = Some missing_credentials"
    by (simp add: sample_defs)
  have verify_tpl: "readFile without_credentials ''../templates/verify.html''
      = Inr ''<a href={{verificationLink}}>ok</a>''"
    and dates_tpl: "readFile without_credentials ''../templates/datesModified.html''
      = Inr ''{{participantName}}: {{tripTitle}} {{newStartDate}} {{tripDetailsUrl}}''"
    and pending_tpl: "readFile without_credentials ''../templates/pendingRequest.html''
      = Inr ''{{userName}}: {{userMessage}} {{accepted}} {{rejected}}''"
    by (simp_all add: sample_defs)
  have n2: "show_nat 2 = ''2''" and n42: "show_nat 42 = ''42''" by code_simp+
  have verify_tok: "jwt_sign without_credentials (VerifyPayload (id_user beto))
      (SECRET_KEY without_credentials) ''1d'' = Inr ''v2.1d''"
    and accept_tok: "jwt_sign without_credentials
      (ActionPayload (id_participation request_of_beto) ''accepted'')
      (SECRET_KEY without_credentials) ''7d'' = Inr ''accepted42.7d''"
    and reject_tok: "jwt_sign without_credentials
      (ActionPayload (id_participation request_of_beto) ''rejected'')
      (SECRET_KEY without_credentials) ''7d'' = Inr ''rejected42.7d''"
    using n2 n42 by (simp_all add: sample_defs)
  have lookups: "selectById without_credentials (p_id_user request_of_beto) = Inr (Some beto)"
    "tripsById without_credentials (p_id_trip request_of_beto) = Inr (Some trip_after)"
    "selectById without_credentials (id_creator trip_after) = Inr (Some ana)"
    by (simp_all add: sample_defs)
  have creds: "GMAIL_USER without_credentials = None \<and> GMAIL_APP_PASSWORD without_credentials = None"
    by (simp add: sample_defs)
  have verify_ret: "fst (sendVerifyEmailTo without_credentials beto empty_world) = Inr ()"
    by (rule sendVerifyEmailTo_returns)
  have verify_box: "map mail_to (outbox (snd (sendVerifyEmailTo without_credentials beto empty_world)))
      = [''beto@example.com'']"
    unfolding verify_success [OF tr verify_tpl verify_tok]
    by (simp add: empty_world_def beto_def)
  have others: "[ana, beto] \<noteq> []" by simp
  have recipients: "filter (\<lambda>p. email p \<noteq> ''ana@example.com'') [ana, beto] = [beto]"
    by (simp add: ana_def beto_def)
  have batch: "sendTripUpdateNotification without_credentials [ana, beto] trip_before trip_after
      ''ana@example.com'' empty_world
      = (Inr (Some \<lparr>sent = 0, failed = 1, total = 1\<rparr>),
         empty_world\<lparr>outbox := outbox empty_world
            @ [datesModifiedMail without_credentials
                 ''{{participantName}}: {{tripTitle}} {{newStartDate}} {{tripDetailsUrl}}''
                 trip_before trip_after beto]\<rparr>)"
    unfolding trip_update_loaded [OF tr dates_tpl others] recipients
    by (simp add: missing_credentials_def)
  have pending: "sendPendingRequestEmail without_credentials request_of_beto empty_world
      = (Inl (Error ''Missing credentials for PLAIN''),
         empty_world\<lparr>outbox := outbox empty_world
            @ [pendingRequestMail without_credentials
                 ''{{userName}}: {{userMessage}} {{accepted}} {{rejected}}'' ana beto trip_after
                 request_of_beto ''accepted42.7d'' ''rejected42.7d''],
           issued := issued empty_world
            @ [\<lparr>payload = ActionPayload (id_participation request_of_beto) ''accepted'',
                 secretOrPrivateKey = SECRET_KEY without_credentials, expiresIn = ''7d''\<rparr>,
               \<lparr>payload = ActionPayload (id_participation request_of_beto) ''rejected'',
                 secretOrPrivateKey = SECRET_KEY without_credentials, expiresIn = ''7d''\<rparr>]\<rparr>)"
    unfolding pending_success [OF tr lookups pending_tpl accept_tok reject_tok]
    by (simp add: missing_credentials_def)
  show ?thesis
    unfolding batch pending
    using creds tr verify_ret verify_box
    by (simp add: datesModifiedMail_def pendingRequestMail_def empty_world_def ana_def beto_def)
qed

subsection \<open>sendVerifyEmailTo swallows every failure\<close>

text \<open>
  Claim C4. Whatever the environment does (the template cannot be read, signing
  fails, the send is rejected, the credentials of the transporter are missing),
  sendVerifyEmailTo returns normally: its promise is never rejected.
\<close>

theorem sendVerifyEmailTo_never_raises:
  "fst (sendVerifyEmailTo d userData w) = Inr ()"
  by (cases "transporter d") (simp_all add: sendVerifyEmailTo_def try_catch_unit, simp add: ret_def)

theorem sendVerifyEmailTo_never_raises_witness:
  "fst (sendVerifyEmailTo (sample_env\<lparr>readFile := no_files\<rparr>) beto empty_world) = Inr ()
   \<and> fst (sendVerifyEmailTo (sample_env\<lparr>SECRET_KEY := None\<rparr>) beto empty_world) = Inr ()
   \<and> fst (sendVerifyEmailTo (sample_env\<lparr>createTransport := create_refusing_beto\<rparr>) beto empty_world) = Inr ()
   \<and> fst (sendVerifyEmailTo without_credentials beto empty_world) = Inr ()"
  using sendVerifyEmailTo_never_raises [of "sample_env\<lparr>readFile := no_files\<rparr>" beto empty_world]
    sendVerifyEmailTo_never_raises [of "sample_env\<lparr>SECRET_KEY := None\<rparr>" beto empty_world]
    sendVerifyEmailTo_never_raises [of "sample_env\<lparr>createTransport := create_refusing_beto\<rparr>" beto empty_world]
    sendVerifyEmailTo_never_raises [of without_credentials beto empty_world]
  by simp

subsection \<open>sendTripUpdateNotification with nobody to notify\<close>

text \<open>
  Claim C9. With an empty participant list sendTripUpdateNotification returns at
  once, without a value: nothing is thrown and no message is submitted.
\<close>

theorem empty_participants_no_op:
  "sendTripUpdateNotification d [] oldTrip updatedTrip creatorEmail w = (Inr None, w)"
  by (simp add: sendTripUpdateNotification_def ret_def split: option.splits)

theorem empty_participants_no_op_witness:
  "sendTripUpdateNotification sample_env [] trip_before trip_after ''ana@example.com'' empty_world
     = (Inr None, empty_world)"
  using empty_participants_no_op [of sample_env trip_before trip_after "''ana@example.com''" empty_world]
  by simp

subsection \<open>sendPendingRequestEmail when a lookup finds nothing\<close>

text \<open>
  Claim C6, as stated, at a concrete input: the requesting user is not found, the
  trip lookup then throws, and the function rejects with that error instead of
  returning.
\<close>

theorem lookup_nothing_counterexample:
  "selectById (sample_env\<lparr>tripsById := trips_down\<rparr>) (p_id_user request_of_nobody)
     = Inr None
   \<and> fst (sendPendingRequestEmail (sample_env\<lparr>tripsById := trips_down\<rparr>)
            request_of_nobody empty_world) = Inl (Error ''ECONNRESET'')"
  by (simp add: service_defs io_defs sample_defs)

text \<open>
  Claim C6, amended. When the lookups of the requesting user and of the trip both
  return (neither throws) and the user, the trip or the creator of the trip comes
  back as nothing, sendPendingRequestEmail returns without a value: nothing is
  thrown, no message is submitted and no token is asked for.
\<close>

theorem lookup_nothing_no_op:
  assumes "selectById d (p_id_user newParticipation) = Inr participant_opt"
    and "tripsById d (p_id_trip newParticipation) = Inr trip_opt"
    and "participant_opt = None \<or> trip_opt = None
         \<or> (\<exists>trp. trip_opt = Some trp \<and> selectById d (id_creator trp) = Inr None)"
  shows "sendPendingRequestEmail d newParticipation w = (Inr None, w)"
  using assms
  by (auto simp: sendPendingRequestEmail_def pending_try_def io_defs split: option.splits)

theorem lookup_nothing_no_op_witness:
  "selectById sample_env (p_id_user request_of_nobody) = Inr None
   \<and> tripsById sample_env (p_id_trip request_of_nobody) = Inr (Some trip_after)
   \<and> sendPendingRequestEmail sample_env request_of_nobody empty_world = (Inr None, empty_world)"
proof -
  have u: "selectById sample_env (p_id_user request_of_nobody) = Inr None"
    by (simp add: sample_defs)
  have t: "tripsById sample_env (p_id_trip request_of_nobody) = Inr (Some trip_after)"
    by (simp add: sample_defs)
  from lookup_nothing_no_op [OF u t, of empty_world] u t show ?thesis by simp
qed

subsection \<open>The tally of sendTripUpdateNotification\<close>

text \<open>
  Claim C1, as stated, at a concrete input: the template loads, the only participant
  is the creator, and the function returns without a value (undefined) instead of a
  tally of zeros.
\<close>

theorem creator_only_counterexample:
  "readFile sample_env ''../templates/datesModified.html''
     = Inr ''{{participantName}}: {{tripTitle}} {{newStartDate}} {{tripDetailsUrl}}''
   \<and> sendTripUpdateNotification sample_env [ana] trip_before trip_after ''ana@example.com'' empty_world
     = (Inr None, empty_world)"
  by (simp add: service_defs io_defs sample_defs)

text \<open>
  Claim C1, amended. When there is a transporter, the template loads and at least
  one participant has an e-mail different from creatorEmail, the function submits
  one message per such participant, in list order and addressed to that
  participant, and returns the tally: sent counts the sends that were fulfilled,
  failed those that were rejected, total the filtered recipients. It does not raise.
\<close>

theorem batch_tally:
  assumes "transporter d = Some tr"
    and "readFile d ''../templates/datesModified.html'' = Inr htmlTemplate"
    and "\<exists>p \<in> set participants. email p \<noteq> creatorEmail"
    and "recipients = filter (\<lambda>p. email p \<noteq> creatorEmail) participants"
    and "mails = map (datesModifiedMail d htmlTemplate oldTrip updatedTrip) recipients"
    and "outcomes = settlements tr (outbox w) mails"
  shows "sendTripUpdateNotification d participants oldTrip updatedTrip creatorEmail w =
           (Inr (Some \<lparr>sent = length (filter (\<lambda>p. \<not> isl p) outcomes),
                       failed = length (filter isl outcomes),
                       total = length recipients\<rparr>),
            w\<lparr>outbox := outbox w @ mails\<rparr>)
       \<and> map mail_to mails = map email recipients
       \<and> length outcomes = length recipients
       \<and> (\<forall>i < length mails. outcomes ! i = tr (outbox w @ take i mails) (mails ! i))"
proof -
  from assms(3) have nonempty: "participants \<noteq> []" by auto
  from assms(3,4) have some: "recipients \<noteq> []" by (auto simp: filter_empty_conv)
  have run: "sendTripUpdateNotification d participants oldTrip updatedTrip creatorEmail w =
           (Inr (Some \<lparr>sent = length (filter (\<lambda>p. \<not> isl p) outcomes),
                       failed = length (filter isl outcomes),
                       total = length recipients\<rparr>),
            w\<lparr>outbox := outbox w @ mails\<rparr>)"
    using trip_update_loaded [OF assms(1,2) nonempty, of oldTrip updatedTrip creatorEmail w] some
    by (simp add: assms(4,5,6))
  have to: "map mail_to mails = map email recipients"
    by (simp add: assms(5) datesModifiedMail_def comp_def)
  have len: "length outcomes = length recipients"
    by (simp add: assms(5,6) length_settlements)
  have nth: "\<forall>i < length mails. outcomes ! i = tr (outbox w @ take i mails) (mails ! i)"
    by (simp add: assms(6) nth_settlements)
  from run to len nth show ?thesis by simp
qed

theorem batch_tally_witness:
  "fst (sendTripUpdateNotification sample_env [ana, beto, carla] trip_before trip_after
          ''ana@example.com'' empty_world) = Inr (Some \<lparr>sent = 2, failed = 0, total = 2\<rparr>)
   \<and> map mail_to (outbox (snd (sendTripUpdateNotification sample_env [ana, beto, carla] trip_before
          trip_after ''ana@example.com'' empty_world))) = [''beto@example.com'', ''carla@example.com'']
   \<and> fst (sendTripUpdateNotification (sample_env\<lparr>createTransport := create_refusing_beto\<rparr>)
          [ana, beto, carla] trip_before trip_after ''ana@example.com'' empty_world)
       = Inr (Some \<lparr>sent = 1, failed = 1, total = 2\<rparr>)"
proof -
  let ?t = "''{{participantName}}: {{tripTitle}} {{newStartDate}} {{tripDetailsUrl}}''"
  have tpl: "readFile sample_env ''../templates/datesModified.html'' = Inr ?t"
    by (simp add: sample_defs)
  have tpl': "readFile (sample_env\<lparr>createTransport := create_refusing_beto\<rparr>) ''../templates/datesModified.html'' = Inr ?t"
    by (simp add: sample_defs)
  have other: "\<exists>p \<in> set [ana, beto, carla]. email p \<noteq> ''ana@example.com''"
    by (simp add: sample_defs)
  have tr: "transporter sample_env = Some accepting" by (simp add: sample_defs)
  have tr': "transporter (sample_env\<lparr>createTransport := create_refusing_beto\<rparr>) = Some refusing_beto"
    by (simp add: sample_defs)
  note a = batch_tally [OF tr tpl other refl refl refl, of trip_before trip_after empty_world]
  note b = batch_tally [OF tr' tpl' other refl refl refl, of trip_before trip_after empty_world]
  have recips: "filter (\<lambda>p. email p \<noteq> ''ana@example.com'') [ana, beto, carla] = [beto, carla]"
    by (simp add: sample_defs)
  from a b show ?thesis
    unfolding recips
    by (simp add: datesModifiedMail_def accepting_def refusing_beto_def beto_def carla_def empty_world_def)
qed

subsection \<open>Who is left out of a notification\<close>

text \<open>
  Claim C10. With a transporter and a template that loads, the messages submitted by
  sendTripUpdateNotification go exactly to the participant e-mails that are not
  character for character equal to creatorEmail, in list order; when there is such a
  participant the returned total is their number. An address that differs from
  creatorEmail only in letter case or by a leading space is notified and counted.
\<close>

theorem creator_filter_exact:
  assumes "transporter d = Some tr"
    and "readFile d ''../templates/datesModified.html'' = Inr htmlTemplate"
  shows "map mail_to (drop (length (outbox w))
            (outbox (snd (sendTripUpdateNotification d participants oldTrip updatedTrip creatorEmail w))))
           = filter (\<lambda>address. address \<noteq> creatorEmail) (map email participants)
       \<and> ((\<exists>p \<in> set participants. email p \<noteq> creatorEmail) \<longrightarrow>
            (\<exists>r. fst (sendTripUpdateNotification d participants oldTrip updatedTrip creatorEmail w)
                    = Inr (Some r)
                 \<and> total r = length (filter (\<lambda>address. address \<noteq> creatorEmail) (map email participants))))"
proof (cases "participants = []")
  case True
  then show ?thesis
    using assms(1) by (simp add: sendTripUpdateNotification_def ret_def)
next
  case False
  let ?recipients = "filter (\<lambda>p. email p \<noteq> creatorEmail) participants"
  let ?run = "sendTripUpdateNotification d participants oldTrip updatedTrip creatorEmail w"
  note run = trip_update_loaded [OF assms False, of oldTrip updatedTrip creatorEmail w]
  have emails: "map email ?recipients
                  = filter (\<lambda>address. address \<noteq> creatorEmail) (map email participants)"
    by (simp add: filter_map comp_def)
  have to: "map mail_to (map (datesModifiedMail d htmlTemplate oldTrip updatedTrip) ?recipients)
              = map email ?recipients"
    by (simp add: datesModifiedMail_def comp_def)
  show ?thesis
  proof (cases "?recipients = []")
    case True
    then have none: "\<not> (\<exists>p \<in> set participants. email p \<noteq> creatorEmail)"
      by (auto simp: filter_empty_conv)
    from True run have "?run = (Inr None, w)" by simp
    with none True emails show ?thesis by simp
  next
    case False
    with run have box: "outbox (snd ?run)
        = outbox w @ map (datesModifiedMail d htmlTemplate oldTrip updatedTrip) ?recipients"
      and res: "\<exists>r. fst ?run = Inr (Some r) \<and> total r = length ?recipients"
      by simp_all
    have "length ?recipients = length (map email ?recipients)" by simp
    with res emails
    have res': "\<exists>r. fst ?run = Inr (Some r)
        \<and> total r = length (filter (\<lambda>address. address \<noteq> creatorEmail) (map email participants))"
      by (simp only:)
    from box to emails have "map mail_to (drop (length (outbox w)) (outbox (snd ?run)))
        = filter (\<lambda>address. address \<noteq> creatorEmail) (map email participants)"
      by (simp only: drop_append drop_all order_refl diff_self_eq_0 drop_0 append_Nil)
    with res' show ?thesis by blast
  qed
qed

theorem creator_filter_exact_witness:
  "map mail_to (drop (length (outbox empty_world))
      (outbox (snd (sendTripUpdateNotification sample_env
         [ana, ana\<lparr>email := ''Ana@example.com''\<rparr>, ana\<lparr>email := '' ana@example.com''\<rparr>]
         trip_before trip_after ''ana@example.com'' empty_world))))
     = [''Ana@example.com'', '' ana@example.com'']
   \<and> (\<exists>r. fst (sendTripUpdateNotification sample_env
         [ana, ana\<lparr>email := ''Ana@example.com''\<rparr>, ana\<lparr>email := '' ana@example.com''\<rparr>]
         trip_before trip_after ''ana@example.com'' empty_world) = Inr (Some r) \<and> total r = 2)"
proof -
  let ?t = "''{{participantName}}: {{tripTitle}} {{newStartDate}} {{tripDetailsUrl}}''"
  have tpl: "readFile sample_env ''../templates/datesModified.html'' = Inr ?t"
    by (simp add: sample_defs)
  have tr: "transporter sample_env = Some accepting" by (simp add: sample_defs)
  from creator_filter_exact [OF tr tpl, of empty_world
      "[ana, ana\<lparr>email := ''Ana@example.com''\<rparr>, ana\<lparr>email := '' ana@example.com''\<rparr>]"
      trip_before trip_after "''ana@example.com''"]
  show ?thesis by (simp add: ana_def numeral_2_eq_2)
qed

subsection \<open>Rendering\<close>

text \<open>
  Claim C3, as stated, at concrete inputs: a title holding two dollar signs is
  rendered with one, so the token is not replaced with the value of its key; and a
  participant name that is itself the text of a later token is rewritten by the
  later replacement, so the text put in by one replacement does not stay as it is.
\<close>

theorem rendering_counterexample:
  "datesModifiedHtml sample_env ''Destino: {{tripTitle}}'' ana trip_before
      (trip_after\<lparr>title := ''Lima $$''\<rparr>) = ''Destino: Lima $''
   \<and> datesModifiedHtml sample_env ''Hola {{participantName}}'' (ana\<lparr>name := ''{{tripTitle}}''\<rparr>)
      trip_before trip_after = ''Hola Lima''"
  by (simp add: datesModifiedHtml_def replace_chain_def replace_global_def replace_from.simps
        token_def sample_defs)

text \<open>
  Claim C3, amended. Take a template made of literal text and of placeholder
  tokens, and a chain of replacements in which no value that is put in holds a
  dollar sign followed by a dollar sign, an ampersand, a backtick or an apostrophe,
  and in which the token replaced at each step starts nowhere but at its
  placeholders (neither in the other text of the template nor in text brought in by
  an earlier value). Then rendering replaces every occurrence of each token with the
  value of its name (the first one listed), leaves the tokens without an entry as
  they are, and leaves all other text unchanged.
\<close>

theorem rendering_placeholders:
  assumes "chain_admissible kvs segs"
  shows "replace_chain kvs (template_of segs) = rendering_spec kvs segs"
  using assms
proof (induction kvs arbitrary: segs)
  case Nil
  then show ?case by (simp add: replace_chain_def rendering_spec_Nil)
next
  case (Cons kv kvs)
  obtain k v where kv: "kv = (k, v)" by (cases kv)
  with Cons.prems have here: "only_placeholders k segs"
    and safe: "Tok k \<notin> set segs \<or> dollar_safe v"
    and later: "chain_admissible kvs (map (put k v) segs)"
    by simp_all
  have "replace_chain (kv # kvs) (template_of segs)
          = replace_chain kvs (replace_global k v (template_of segs))"
    by (simp add: replace_chain_def kv)
  also have "\<dots> = replace_chain kvs (template_of (map (put k v) segs))"
    using here safe by (simp add: replace_global_def replace_from_placeholders)
  also have "\<dots> = rendering_spec kvs (map (put k v) segs)"
    using Cons.IH [OF later] .
  finally show ?case by (simp add: kv rendering_spec_Cons)
qed

theorem rendering_placeholders_witness:
  "chain_admissible
        [(''participantName'', ''Beto''), (''tripTitle'', ''f(x) = {x}''),
         (''userMessage'', ''cuesta $50 o 5$''), (''oldEndDate'', ''$&'')]
        [Lit ''<style>p{color:red}</style>Hola '', Tok ''participantName'', Lit '': '', Tok ''tripTitle'',
         Lit '' '', Tok ''unknown'', Lit '' '', Tok ''userMessage'', Lit '' '', Tok ''participantName'']
   \<and> replace_chain
        [(''participantName'', ''Beto''), (''tripTitle'', ''f(x) = {x}''),
         (''userMessage'', ''cuesta $50 o 5$''), (''oldEndDate'', ''$&'')]
        ''<style>p{color:red}</style>Hola {{participantName}}: {{tripTitle}} {{unknown}} {{userMessage}} {{participantName}}''
      = ''<style>p{color:red}</style>Hola Beto: f(x) = {x} {{unknown}} cuesta $50 o 5$ Beto''"
proof -
  have c: "chain_admissible
        [(''participantName'', ''Beto''), (''tripTitle'', ''f(x) = {x}''),
         (''userMessage'', ''cuesta $50 o 5$''), (''oldEndDate'', ''$&'')]
        [Lit ''<style>p{color:red}</style>Hola '', Tok ''participantName'', Lit '': '', Tok ''tripTitle'',
         Lit '' '', Tok ''unknown'', Lit '' '', Tok ''userMessage'', Lit '' '', Tok ''participantName'']"
    by code_simp
  from rendering_placeholders [OF c] c show ?thesis
    by (simp add: template_of_def rendering_spec_def token_def)
qed

subsection \<open>Which function raises\<close>

text \<open>
  Claim C5. With a transporter, whichever step of sendPendingRequestEmail fails
  first (a lookup, the template, one of the two signatures, or the send), the
  function rejects with the error of that step. sendVerifyEmailTo and
  sendTripUpdateNotification return normally in every environment.
\<close>

theorem propagation_asymmetry:
  assumes "transporter d = Some tr"
    and "selectById d (p_id_user np) = Inl e
       \<or> (selectById d (p_id_user np) = Inr participant_opt \<and> tripsById d (p_id_trip np) = Inl e)
       \<or> (selectById d (p_id_user np) = Inr (Some participant)
           \<and> tripsById d (p_id_trip np) = Inr (Some trp)
           \<and> (selectById d (id_creator trp) = Inl e
              \<or> (selectById d (id_creator trp) = Inr (Some creator)
                  \<and> (readFile d ''../templates/pendingRequest.html'' = Inl e
                     \<or> (readFile d ''../templates/pendingRequest.html'' = Inr htmlTemplate
                         \<and> (jwt_sign d (ActionPayload (id_participation np) ''accepted'') (SECRET_KEY d) ''7d'' = Inl e
                            \<or> (jwt_sign d (ActionPayload (id_participation np) ''accepted'') (SECRET_KEY d) ''7d'' = Inr acceptToken
                                \<and> (jwt_sign d (ActionPayload (id_participation np) ''rejected'') (SECRET_KEY d) ''7d'' = Inl e
                                   \<or> (jwt_sign d (ActionPayload (id_participation np) ''rejected'') (SECRET_KEY d) ''7d'' = Inr rejectToken
                                       \<and> tr (outbox w) (pendingRequestMail d htmlTemplate creator participant trp np acceptToken rejectToken) = Inl e)))))))))"
  shows "fst (sendPendingRequestEmail d np w) = Inl e
       \<and> fst (sendVerifyEmailTo d' userData w') = Inr ()
       \<and> (\<exists>r. fst (sendTripUpdateNotification d' participants oldTrip updatedTrip creatorEmail w') = Inr r)"
proof -
  from assms have "fst (sendPendingRequestEmail d np w) = Inl e"
    by (auto simp: sendPendingRequestEmail_def pending_try_def loadTemplate_def sign_def sendMail_def
          io_defs)
  then show ?thesis
    using sendVerifyEmailTo_returns sendTripUpdateNotification_returns by blast
qed

theorem propagation_asymmetry_witness:
  "fst (sendPendingRequestEmail (sample_env\<lparr>readFile := no_files\<rparr>)
          request_of_beto empty_world) = Inl (Error ''ENOENT'')
   \<and> fst (sendVerifyEmailTo (sample_env\<lparr>readFile := no_files\<rparr>) beto empty_world)
       = Inr ()
   \<and> (\<exists>r. fst (sendTripUpdateNotification (sample_env\<lparr>readFile := no_files\<rparr>)
          [ana, beto] trip_before trip_after ''ana@example.com'' empty_world) = Inr r)
   \<and> fst (sendPendingRequestEmail (sample_env\<lparr>createTransport := create_rejecting\<rparr>)
          request_of_beto empty_world) = Inl (Error ''535 authentication failed'')
   \<and> fst (sendVerifyEmailTo (sample_env\<lparr>createTransport := create_rejecting\<rparr>) beto empty_world) = Inr ()
   \<and> (\<exists>r. fst (sendTripUpdateNotification (sample_env\<lparr>createTransport := create_rejecting\<rparr>)
          [ana, beto] trip_before trip_after ''ana@example.com'' empty_world) = Inr r)"
proof -
  let ?unreadable = "sample_env\<lparr>readFile := no_files\<rparr>"
  let ?refused = "sample_env\<lparr>createTransport := create_rejecting\<rparr>"
  have n42: "show_nat 42 = ''42''" by code_simp
  have a: "fst (sendPendingRequestEmail ?unreadable request_of_beto empty_world) = Inl (Error ''ENOENT'')
       \<and> fst (sendVerifyEmailTo ?unreadable beto empty_world) = Inr ()
       \<and> (\<exists>r. fst (sendTripUpdateNotification ?unreadable [ana, beto] trip_before trip_after
                ''ana@example.com'' empty_world) = Inr r)"
    using propagation_asymmetry [where d = ?unreadable and tr = accepting and np = request_of_beto
        and w = empty_world and e = "Error ''ENOENT''" and participant_opt = "Some beto"
        and participant = beto and trp = trip_after and creator = ana and htmlTemplate = "[]"
        and acceptToken = "[]" and rejectToken = "[]" and d' = ?unreadable and userData = beto
        and w' = empty_world and participants = "[ana, beto]" and oldTrip = trip_before
        and updatedTrip = trip_after and creatorEmail = "''ana@example.com''"]
    by (simp add: sample_defs)
  have b: "fst (sendPendingRequestEmail ?refused request_of_beto empty_world)
           = Inl (Error ''535 authentication failed'')
       \<and> fst (sendVerifyEmailTo ?refused beto empty_world) = Inr ()
       \<and> (\<exists>r. fst (sendTripUpdateNotification ?refused [ana, beto] trip_before trip_after
                ''ana@example.com'' empty_world) = Inr r)"
    using propagation_asymmetry [where d = ?refused and tr = rejecting and np = request_of_beto
        and w = empty_world and e = "Error ''535 authentication failed''" and participant_opt = "Some beto"
        and participant = beto and trp = trip_after and creator = ana
        and htmlTemplate = "''{{userName}}: {{userMessage}} {{accepted}} {{rejected}}''"
        and acceptToken = "''accepted42.7d''" and rejectToken = "''rejected42.7d''"
        and d' = ?refused and userData = beto
        and w' = empty_world and participants = "[ana, beto]" and oldTrip = trip_before
        and updatedTrip = trip_after and creatorEmail = "''ana@example.com''"]
    by (simp add: sample_defs n42)
  from a b show ?thesis by simp
qed

subsection \<open>Tokens and links\<close>

text \<open>
  Claim C7. sendVerifyEmailTo asks for one token with the payload of the user
  identifier and expiry 1d, and puts the link
  backendBaseUrl/api/auth/verify?token=... in the message. sendPendingRequestEmail
  asks for exactly two tokens with expiry 7d, carrying the participation identifier
  with the actions accepted and rejected in this order, and submits one message, to
  the creator, whose body is rendered with both links
  backendBaseUrl/api/participants/id/action?token=...
\<close>

theorem tokens_and_links:
  assumes "transporter d = Some tr"
    and "readFile d ''../templates/verify.html'' = Inr verifyTemplate"
    and "jwt_sign d (VerifyPayload (id_user userData)) (SECRET_KEY d) ''1d'' = Inr verifyToken"
    and "selectById d (p_id_user np) = Inr (Some participant)"
    and "tripsById d (p_id_trip np) = Inr (Some trp)"
    and "selectById d (id_creator trp) = Inr (Some creator)"
    and "readFile d ''../templates/pendingRequest.html'' = Inr pendingTemplate"
    and "jwt_sign d (ActionPayload (id_participation np) ''accepted'') (SECRET_KEY d) ''7d'' = Inr acceptToken"
    and "jwt_sign d (ActionPayload (id_participation np) ''rejected'') (SECRET_KEY d) ''7d'' = Inr rejectToken"
    and "backendBaseUrl = or_default (API_BASE_URL d) ''http://localhost:3000''"
  shows "snd (sendVerifyEmailTo d userData w) =
           w\<lparr>outbox := outbox w
                 @ [\<lparr>mail_from = GMAIL_USER d, mail_to = email userData, subject = verify_subject,
                     html = replace_global ''verificationLink''
                              (backendBaseUrl @ ''/api/auth/verify?token='' @ verifyToken)
                              verifyTemplate\<rparr>],
             issued := issued w
                 @ [\<lparr>payload = VerifyPayload (id_user userData),
                     secretOrPrivateKey = SECRET_KEY d, expiresIn = ''1d''\<rparr>]\<rparr>
       \<and> issued (snd (sendPendingRequestEmail d np w')) =
           issued w'
             @ [\<lparr>payload = ActionPayload (id_participation np) ''accepted'',
                 secretOrPrivateKey = SECRET_KEY d, expiresIn = ''7d''\<rparr>,
                \<lparr>payload = ActionPayload (id_participation np) ''rejected'',
                 secretOrPrivateKey = SECRET_KEY d, expiresIn = ''7d''\<rparr>]
       \<and> (\<exists>m. outbox (snd (sendPendingRequestEmail d np w')) = outbox w' @ [m]
              \<and> mail_to m = email creator
              \<and> html m =
                  replace_chain
                    [(''creatorName'', name creator),
                     (''userName'', name participant),
                     (''tripTitle'', title trp),
                     (''startDate'', formatDate d (start_date trp)),
                     (''endDate'', formatDate d (end_date trp)),
                     (''userMessage'', or_default (message np) ''Sin mensaje''),
                     (''appUrl'', or_default (FRONTEND_URL d) ''http://localhost:3000'' @ ''/requests''),
                     (''accepted'', backendBaseUrl @ ''/api/participants/''
                        @ show_nat (id_participation np) @ ''/action?token='' @ acceptToken),
                     (''rejected'', backendBaseUrl @ ''/api/participants/''
                        @ show_nat (id_participation np) @ ''/action?token='' @ rejectToken)]
                    pendingTemplate)"
proof -
  note v = verify_success [OF assms(1,2,3), of w]
  note p = pending_success [OF assms(1) assms(4-9), of w']
  have link: "verificationLink d verifyToken = backendBaseUrl @ ''/api/auth/verify?token='' @ verifyToken"
    by (simp add: verificationLink_def assms(10))
  show ?thesis
    unfolding v p link
    by (simp add: pendingRequestMail_def pendingRequestHtml_def actionLink_def assms(10))
qed

theorem tokens_and_links_witness:
  "issued (snd (sendVerifyEmailTo sample_env beto empty_world))
     = [\<lparr>payload = VerifyPayload 2, secretOrPrivateKey = Some ''s3cret'', expiresIn = ''1d''\<rparr>]
   \<and> map html (outbox (snd (sendVerifyEmailTo sample_env beto empty_world)))
     = [''<a href=https://api.example.com/api/auth/verify?token=v2.1d>ok</a>'']
   \<and> issued (snd (sendPendingRequestEmail sample_env request_of_beto empty_world))
     = [\<lparr>payload = ActionPayload 42 ''accepted'', secretOrPrivateKey = Some ''s3cret'', expiresIn = ''7d''\<rparr>,
        \<lparr>payload = ActionPayload 42 ''rejected'', secretOrPrivateKey = Some ''s3cret'', expiresIn = ''7d''\<rparr>]
   \<and> (\<exists>m. outbox (snd (sendPendingRequestEmail sample_env request_of_beto empty_world)) = [m]
        \<and> mail_to m = ''ana@example.com''
        \<and> html m = ''Beto: Sin mensaje https://api.example.com/api/participants/42/action?token=accepted42.7d https://api.example.com/api/participants/42/action?token=rejected42.7d'')"
proof -
  have n2: "show_nat 2 = ''2''" and n42: "show_nat 42 = ''42''" by code_simp+
  have h: "transporter sample_env = Some accepting"
    "readFile sample_env ''../templates/verify.html'' = Inr ''<a href={{verificationLink}}>ok</a>''"
    "jwt_sign sample_env (VerifyPayload (id_user beto)) (SECRET_KEY sample_env) ''1d'' = Inr ''v2.1d''"
    "selectById sample_env (p_id_user request_of_beto) = Inr (Some beto)"
    "tripsById sample_env (p_id_trip request_of_beto) = Inr (Some trip_after)"
    "selectById sample_env (id_creator trip_after) = Inr (Some ana)"
    "readFile sample_env ''../templates/pendingRequest.html''
       = Inr ''{{userName}}: {{userMessage}} {{accepted}} {{rejected}}''"
    "jwt_sign sample_env (ActionPayload (id_participation request_of_beto) ''accepted'')
       (SECRET_KEY sample_env) ''7d'' = Inr ''accepted42.7d''"
    "jwt_sign sample_env (ActionPayload (id_participation request_of_beto) ''rejected'')
       (SECRET_KEY sample_env) ''7d'' = Inr ''rejected42.7d''"
    using n2 n42 by (simp_all add: sample_defs)
  note t = tokens_and_links [OF h refl, of empty_world empty_world]
  have r: "replace_global ''verificationLink'' ''https://api.example.com/api/auth/verify?token=v2.1d''
             ''<a href={{verificationLink}}>ok</a>''
           = ''<a href=https://api.example.com/api/auth/verify?token=v2.1d>ok</a>''"
    by code_simp
  have c: "replace_chain
             [(''creatorName'', ''Ana''), (''userName'', ''Beto''), (''tripTitle'', ''Lima''),
              (''startDate'', ''2025-02-03''), (''endDate'', ''2025-02-10''),
              (''userMessage'', ''Sin mensaje''), (''appUrl'', ''http://localhost:3000/requests''),
              (''accepted'', ''https://api.example.com/api/participants/42/action?token=accepted42.7d''),
              (''rejected'', ''https://api.example.com/api/participants/42/action?token=rejected42.7d'')]
             ''{{userName}}: {{userMessage}} {{accepted}} {{rejected}}''
           = ''Beto: Sin mensaje https://api.example.com/api/participants/42/action?token=accepted42.7d https://api.example.com/api/participants/42/action?token=rejected42.7d''"
    by code_simp
  from t show ?thesis
    using n42 r c
    by (simp add: sample_env_def empty_world_def ana_def beto_def trip_after_def request_of_beto_def
          or_default_def)
qed

subsection \<open>A request without a message\<close>

text \<open>
  Claim C8. When the message of the request is absent or empty, the body that
  sendPendingRequestEmail submits is rendered with the text Sin mensaje for the
  userMessage placeholder; the missing message makes no step fail.
\<close>

theorem missing_message_fallback:
  assumes "message np = None \<or> message np = Some []"
    and "transporter d = Some tr"
    and "selectById d (p_id_user np) = Inr (Some participant)"
    and "tripsById d (p_id_trip np) = Inr (Some trp)"
    and "selectById d (id_creator trp) = Inr (Some creator)"
    and "readFile d ''../templates/pendingRequest.html'' = Inr htmlTemplate"
    and "jwt_sign d (ActionPayload (id_participation np) ''accepted'') (SECRET_KEY d) ''7d'' = Inr acceptToken"
    and "jwt_sign d (ActionPayload (id_participation np) ''rejected'') (SECRET_KEY d) ''7d'' = Inr rejectToken"
  shows "map html (outbox (snd (sendPendingRequestEmail d np w))) =
           map html (outbox w)
           @ [replace_chain
                [(''creatorName'', name creator),
                 (''userName'', name participant),
                 (''tripTitle'', title trp),
                 (''startDate'', formatDate d (start_date trp)),
                 (''endDate'', formatDate d (end_date trp)),
                 (''userMessage'', ''Sin mensaje''),
                 (''appUrl'', or_default (FRONTEND_URL d) ''http://localhost:3000'' @ ''/requests''),
                 (''accepted'', actionLink d (id_participation np) acceptToken),
                 (''rejected'', actionLink d (id_participation np) rejectToken)]
                htmlTemplate]"
proof -
  from assms(1) have fallback: "or_default (message np) ''Sin mensaje'' = ''Sin mensaje''"
    by (auto simp: or_default_def)
  show ?thesis
    unfolding pending_success [OF assms(2-8), of w]
    by (simp add: pendingRequestMail_def pendingRequestHtml_def fallback)
qed

theorem missing_message_fallback_witness:
  "message request_of_beto = None
   \<and> map html (outbox (snd (sendPendingRequestEmail
        (sample_env\<lparr>readFile := one_file\<rparr>) request_of_beto empty_world)))
     = [''<p>Sin mensaje</p>'']
   \<and> map html (outbox (snd (sendPendingRequestEmail
        (sample_env\<lparr>readFile := one_file\<rparr>)
        (request_of_beto\<lparr>message := Some []\<rparr>) empty_world)))
     = [''<p>Sin mensaje</p>'']"
proof -
  let ?d = "sample_env\<lparr>readFile := one_file\<rparr>"
  let ?np = "request_of_beto\<lparr>message := Some []\<rparr>"
  have n42: "show_nat 42 = ''42''" by code_simp
  have h: "transporter ?d = Some accepting"
    "selectById ?d (p_id_user request_of_beto) = Inr (Some beto)"
    "tripsById ?d (p_id_trip request_of_beto) = Inr (Some trip_after)"
    "selectById ?d (id_creator trip_after) = Inr (Some ana)"
    "readFile ?d ''../templates/pendingRequest.html'' = Inr ''<p>{{userMessage}}</p>''"
    "jwt_sign ?d (ActionPayload (id_participation request_of_beto) ''accepted'')
       (SECRET_KEY ?d) ''7d'' = Inr ''accepted42.7d''"
    "jwt_sign ?d (ActionPayload (id_participation request_of_beto) ''rejected'')
       (SECRET_KEY ?d) ''7d'' = Inr ''rejected42.7d''"
    using n42 by (simp_all add: sample_defs)
  have h': "selectById ?d (p_id_user ?np) = Inr (Some beto)"
    "tripsById ?d (p_id_trip ?np) = Inr (Some trip_after)"
    "jwt_sign ?d (ActionPayload (id_participation ?np) ''accepted'')
       (SECRET_KEY ?d) ''7d'' = Inr ''accepted42.7d''"
    "jwt_sign ?d (ActionPayload (id_participation ?np) ''rejected'')
       (SECRET_KEY ?d) ''7d'' = Inr ''rejected42.7d''"
    using n42 by (simp_all add: sample_defs)
  have none: "message request_of_beto = None \<or> message request_of_beto = Some []"
    by (simp add: request_of_beto_def)
  have empty: "message ?np = None \<or> message ?np = Some []"
    by simp
  have c: "replace_chain
             [(''creatorName'', ''Ana''), (''userName'', ''Beto''), (''tripTitle'', ''Lima''),
              (''startDate'', ''2025-02-03''), (''endDate'', ''2025-02-10''),
              (''userMessage'', ''Sin mensaje''), (''appUrl'', ''http://localhost:3000/requests''),
              (''accepted'', ''https://api.example.com/api/participants/42/action?token=accepted42.7d''),
              (''rejected'', ''https://api.example.com/api/participants/42/action?token=rejected42.7d'')]
             ''<p>{{userMessage}}</p>''
           = ''<p>Sin mensaje</p>''"
    by code_simp
  note a = missing_message_fallback [OF none h, of empty_world]
  note b = missing_message_fallback [OF empty h(1) h'(1) h'(2) h(4) h(5) h'(3) h'(4), of empty_world]
  from a b none show ?thesis
    using n42 c
    by (simp add: sample_env_def empty_world_def ana_def beto_def trip_after_def request_of_beto_def
          or_default_def actionLink_def)
qed

end
